theory Spec2Isabelle
  imports Complex_Main "HOL-Library.List_Lexorder"
begin

section \<open>Values of the host language\<close>

text \<open>
  The gateway (\<^verbatim>\<open>api.ts\<close>) handles rooms, query parameters and remote-call payloads as
  untyped JavaScript values. The values that occur are JSON data, \<^verbatim>\<open>undefined\<close> and the
  numbers that are not finite. A finite number is an integer (client counts, page
  numbers, timestamps), and the arithmetic on integers is exact; \<open>JInfinity\<close> is the
  number \<^verbatim>\<open>Infinity\<close>, which the registry gives as \<open>maxClients\<close> to a room without a
  limit. An object is the list of its own properties in insertion order, with distinct
  keys.
\<close>

datatype jsval =
    JUndefined
  | JNull
  | JBool bool
  | JNum int
  | JNaN
  | JInfinity
  | JNegInfinity
  | JStr string
  | JArr "jsval list"
  | JObj "(string \<times> jsval) list"

text \<open>A number on its own, as a typed field holds it and as \<^verbatim>\<open>ToNumber\<close> returns it.\<close>

datatype number = NaN | NegInfinity | Integer int | Infinity

fun number_value :: "number \<Rightarrow> jsval" where
  "number_value NaN = JNaN"
| "number_value NegInfinity = JNegInfinity"
| "number_value (Integer n) = JNum n"
| "number_value Infinity = JInfinity"

text \<open>Errors are values: what a \<^verbatim>\<open>throw\<close> or a rejected promise carries.\<close>

datatype error = SyntaxError string | TypeError string | Failure string

fun message :: "error \<Rightarrow> string" where
  "message (SyntaxError m) = m"
| "message (TypeError m) = m"
| "message (Failure m) = m"

subsection \<open>Number to text\<close>

definition digit_char :: "nat \<Rightarrow> char" where
  "digit_char d = ''0123456789'' ! d"

fun show_nat :: "nat \<Rightarrow> string" where
  "show_nat n = (if n < 10 then [digit_char n] else show_nat (n div 10) @ [digit_char (n mod 10)])"

declare show_nat.simps [simp del]

text \<open>The decimal text of an integer.\<close>

definition show_int :: "int \<Rightarrow> string" where
  "show_int i = (if i < 0 then CHR ''-'' # show_nat (nat (- i)) else show_nat (nat i))"

text \<open>
  The exponent notation of an integer: its first digit, the further digits up to the
  last one that is not zero after a point, and the power of ten, as in \<^verbatim>\<open>1e+21\<close> and
  \<^verbatim>\<open>1.5e+22\<close>.
\<close>

definition exponent_text :: "int \<Rightarrow> string" where
  "exponent_text i =
     (let ds = show_nat (nat \<bar>i\<bar>);
          sig = rev (dropWhile (\<lambda>c. c = CHR ''0'') (rev ds));
          mantissa = (case sig of
                        [] \<Rightarrow> ''0''
                      | d # rest \<Rightarrow> if rest = [] then [d] else d # CHR ''.'' # rest)
      in (if i < 0 then ''-'' else []) @ mantissa @ ''e+'' @ show_nat (length ds - 1))"

text \<open>
  \<^verbatim>\<open>`${x}`\<close> and \<^verbatim>\<open>String(x)\<close> for a number \<open>x\<close>: the names of the numbers that are not
  finite, the decimal text of an integer below \<open>10\<^sup>2\<^sup>1\<close> in magnitude, and exponent notation
  from there on. The digits are those of the integer. The engine writes the shortest
  digits that identify the double-precision value: the two are the same for every
  integer below \<open>2\<^sup>5\<^sup>3\<close> in magnitude, and above for the integers with few significant
  digits, such as \<open>10\<^sup>2\<^sup>1\<close>.
\<close>

definition integer_to_string :: "int \<Rightarrow> string" where
  "integer_to_string i = (if \<bar>i\<bar> < 10 ^ 21 then show_int i else exponent_text i)"

fun number_to_string :: "number \<Rightarrow> string" where
  "number_to_string NaN = ''NaN''"
| "number_to_string NegInfinity = ''-Infinity''"
| "number_to_string (Integer n) = integer_to_string n"
| "number_to_string Infinity = ''Infinity''"

subsection \<open>Text to number\<close>

definition is_space :: "char \<Rightarrow> bool" where
  "is_space c = (c \<in> set [CHR '' '', CHR 0x09, CHR 0x0A, CHR 0x0B, CHR 0x0C, CHR 0x0D])"

definition is_digit :: "char \<Rightarrow> bool" where
  "is_digit c = (of_char (CHR ''0'') \<le> (of_char c :: nat) \<and> (of_char c :: nat) \<le> of_char (CHR ''9''))"

definition digits_value :: "string \<Rightarrow> int" where
  "digits_value ds = foldl (\<lambda>acc c. 10 * acc + (int (of_char c) - int (of_char (CHR ''0'')))) 0 ds"

definition trim :: "string \<Rightarrow> string" where
  "trim s = rev (dropWhile is_space (rev (dropWhile is_space s)))"

text \<open>
  \<^verbatim>\<open>ToNumber\<close> of a string, for the numbers of the model: surrounding white space is
  dropped, the empty text is \<open>0\<close>, \<^verbatim>\<open>Infinity\<close> with an optional sign is that number, an
  optionally signed run of decimal digits is its value, and anything else is \<^verbatim>\<open>NaN\<close>.
  Literals with a fraction, an exponent or a radix prefix denote numbers outside the
  integers modelled here.
\<close>

definition string_to_number :: "string \<Rightarrow> number" where
  "string_to_number s =
     (let t = trim s in
      case t of
        [] \<Rightarrow> Integer 0
      | c # cs \<Rightarrow>
          if t = ''Infinity'' \<or> t = ''+Infinity'' then Infinity
          else if t = ''-Infinity'' then NegInfinity
          else if c = CHR ''-'' \<and> cs \<noteq> [] \<and> list_all is_digit cs
          then Integer (- digits_value cs)
          else if c = CHR ''+'' \<and> cs \<noteq> [] \<and> list_all is_digit cs
          then Integer (digits_value cs)
          else if list_all is_digit t then Integer (digits_value t)
          else NaN)"

subsection \<open>Conversions and comparisons\<close>

text \<open>Truthiness, as used by \<^verbatim>\<open>||\<close>, \<^verbatim>\<open>&&\<close> and \<^verbatim>\<open>if\<close>.\<close>

fun truthy :: "jsval \<Rightarrow> bool" where
  "truthy JUndefined = False"
| "truthy JNull = False"
| "truthy (JBool b) = b"
| "truthy (JNum n) = (n \<noteq> 0)"
| "truthy JNaN = False"
| "truthy JInfinity = True"
| "truthy JNegInfinity = True"
| "truthy (JStr s) = (s \<noteq> [])"
| "truthy (JArr _) = True"
| "truthy (JObj _) = True"

fun join :: "string \<Rightarrow> string list \<Rightarrow> string" where
  "join sep [] = []"
| "join sep [s] = s"
| "join sep (s # t # ts) = s @ sep @ join sep (t # ts)"

text \<open>\<^verbatim>\<open>ToString\<close>; an array joins its elements with commas, holes for null and undefined.\<close>

fun to_string :: "jsval \<Rightarrow> string" where
  "to_string JUndefined = ''undefined''"
| "to_string JNull = ''null''"
| "to_string (JBool b) = (if b then ''true'' else ''false'')"
| "to_string (JNum n) = integer_to_string n"
| "to_string JNaN = ''NaN''"
| "to_string JInfinity = ''Infinity''"
| "to_string JNegInfinity = ''-Infinity''"
| "to_string (JStr s) = s"
| "to_string (JArr xs) =
     join '','' (map (\<lambda>x. if x = JUndefined \<or> x = JNull then [] else to_string x) xs)"
| "to_string (JObj _) = ''[object Object]''"

text \<open>\<^verbatim>\<open>ToPrimitive\<close>: plain objects and arrays become their text.\<close>

fun to_primitive :: "jsval \<Rightarrow> jsval" where
  "to_primitive (JArr xs) = JStr (to_string (JArr xs))"
| "to_primitive (JObj kvs) = JStr (to_string (JObj kvs))"
| "to_primitive v = v"

text \<open>\<^verbatim>\<open>ToNumber\<close> of a primitive.\<close>

fun to_number :: "jsval \<Rightarrow> number" where
  "to_number JUndefined = NaN"
| "to_number JNull = Integer 0"
| "to_number (JBool b) = Integer (if b then 1 else 0)"
| "to_number (JNum n) = Integer n"
| "to_number JNaN = NaN"
| "to_number JInfinity = Infinity"
| "to_number JNegInfinity = NegInfinity"
| "to_number (JStr s) = string_to_number s"
| "to_number (JArr xs) = string_to_number (to_string (JArr xs))"
| "to_number (JObj kvs) = string_to_number (to_string (JObj kvs))"

text \<open>The order of the numbers; a comparison with \<^verbatim>\<open>NaN\<close> is false.\<close>

fun number_less :: "number \<Rightarrow> number \<Rightarrow> bool" where
  "number_less (Integer a) (Integer b) = (a < b)"
| "number_less (Integer a) Infinity = True"
| "number_less NegInfinity (Integer b) = True"
| "number_less NegInfinity Infinity = True"
| "number_less _ _ = False"

text \<open>Strings compare by code unit, lexicographically.\<close>

fun string_less :: "string \<Rightarrow> string \<Rightarrow> bool" where
  "string_less [] [] = False"
| "string_less [] (y # ys) = True"
| "string_less (x # xs) [] = False"
| "string_less (x # xs) (y # ys) =
     ((of_char x :: nat) < of_char y \<or> (x = y \<and> string_less xs ys))"

text \<open>
  The relational operator \<^verbatim>\<open>a < b\<close>: two strings compare as text; otherwise both sides
  are converted to numbers and the result is false as soon as one of them is \<^verbatim>\<open>NaN\<close>.
\<close>

definition js_less :: "jsval \<Rightarrow> jsval \<Rightarrow> bool" where
  "js_less a b =
     (case (to_primitive a, to_primitive b) of
        (JStr s, JStr t) \<Rightarrow> string_less s t
      | (pa, pb) \<Rightarrow> number_less (to_number pa) (to_number pb))"

text \<open>
  Strict equality \<^verbatim>\<open>a === b\<close>: primitives by type and value, \<^verbatim>\<open>NaN\<close> equal to
  nothing; objects and arrays by identity. Every room of a registry listing and every value parsed from a request is an
  object of its own, so two objects met by the gateway are never identical.
\<close>

fun strict_eq :: "jsval \<Rightarrow> jsval \<Rightarrow> bool" where
  "strict_eq JUndefined JUndefined = True"
| "strict_eq JNull JNull = True"
| "strict_eq (JBool a) (JBool b) = (a = b)"
| "strict_eq (JNum a) (JNum b) = (a = b)"
| "strict_eq JInfinity JInfinity = True"
| "strict_eq JNegInfinity JNegInfinity = True"
| "strict_eq (JStr a) (JStr b) = (a = b)"
| "strict_eq _ _ = False"

subsection \<open>Property access\<close>

text \<open>
  \<^verbatim>\<open>v?.[k]\<close>: \<^verbatim>\<open>undefined\<close> on null and undefined; an own property of an object;
  an element or the length of an array or a string. A property that is not there reads
  as \<^verbatim>\<open>undefined\<close>; inherited properties are not part of the data modelled.
\<close>

definition index_of_key :: "nat \<Rightarrow> string \<Rightarrow> nat option" where
  "index_of_key n k = List.find (\<lambda>i. show_nat i = k) [0..<n]"

fun get_prop :: "jsval \<Rightarrow> string \<Rightarrow> jsval" where
  "get_prop (JObj kvs) k = (case map_of kvs k of Some v \<Rightarrow> v | None \<Rightarrow> JUndefined)"
| "get_prop (JArr xs) k =
     (if k = ''length'' then JNum (int (length xs))
      else case index_of_key (length xs) k of Some i \<Rightarrow> xs ! i | None \<Rightarrow> JUndefined)"
| "get_prop (JStr s) k =
     (if k = ''length'' then JNum (int (length s))
      else case index_of_key (length s) k of Some i \<Rightarrow> JStr [s ! i] | None \<Rightarrow> JUndefined)"
| "get_prop _ k = JUndefined"

text \<open>\<^verbatim>\<open>data.k = v\<close> on an object: the property is replaced in place or appended.\<close>

fun set_entry :: "string \<Rightarrow> jsval \<Rightarrow> (string \<times> jsval) list \<Rightarrow> (string \<times> jsval) list" where
  "set_entry k v [] = [(k, v)]"
| "set_entry k v ((k', v') # kvs) =
     (if k' = k then (k, v) # kvs else (k', v') # set_entry k v kvs)"

text \<open>
  \<^verbatim>\<open>Object.entries\<close>: the own properties of an object, the indexed elements of an array
  or a string, nothing for a number or a boolean, and a \<^verbatim>\<open>TypeError\<close> for null and
  undefined.
\<close>

fun object_entries :: "jsval \<Rightarrow> error + (string \<times> jsval) list" where
  "object_entries (JObj kvs) = Inr kvs"
| "object_entries (JArr xs) = Inr (map (\<lambda>i. (show_nat i, xs ! i)) [0..<length xs])"
| "object_entries (JStr s) = Inr (map (\<lambda>i. (show_nat i, JStr [s ! i])) [0..<length s])"
| "object_entries (JNum _) = Inr []"
| "object_entries JNaN = Inr []"
| "object_entries JInfinity = Inr []"
| "object_entries JNegInfinity = Inr []"
| "object_entries (JBool _) = Inr []"
| "object_entries JNull = Inl (TypeError ''Cannot convert undefined or null to object'')"
| "object_entries JUndefined = Inl (TypeError ''Cannot convert undefined or null to object'')"

text \<open>
  \<^verbatim>\<open>JSON.parse(JSON.stringify(v))\<close>: a deep copy in which undefined properties are left
  out, undefined array elements become null, and so does every number that is not
  finite.
\<close>

fun json_copy :: "jsval \<Rightarrow> jsval" where
  "json_copy (JObj kvs) =
     JObj (map (\<lambda>(k, v). (k, json_copy v)) (filter (\<lambda>(k, v). v \<noteq> JUndefined) kvs))"
| "json_copy (JArr xs) = JArr (map (\<lambda>x. if x = JUndefined then JNull else json_copy x) xs)"
| "json_copy JNaN = JNull"
| "json_copy JInfinity = JNull"
| "json_copy JNegInfinity = JNull"
| "json_copy v = v"

text \<open>
  \<^verbatim>\<open>data.k = v\<close> in strict mode, as far as the response shows it: an object gets the
  property, an array keeps its elements (a named property of an array is not serialised),
  and the assignment throws on null, undefined and the other primitives.
\<close>

fun set_prop :: "jsval \<Rightarrow> string \<Rightarrow> jsval \<Rightarrow> error + jsval" where
  "set_prop (JObj kvs) k v = Inr (JObj (set_entry k v kvs))"
| "set_prop (JArr xs) k v = Inr (JArr xs)"
| "set_prop _ k v = Inl (TypeError ''Cannot set properties'')"

subsection \<open>Strings and arrays\<close>

text \<open>\<^verbatim>\<open>s.split(c)\<close> for a one-character separator.\<close>

fun split :: "char \<Rightarrow> string \<Rightarrow> string list" where
  "split c [] = [[]]"
| "split c (x # xs) =
     (if x = c then [] # split c xs
      else (case split c xs of [] \<Rightarrow> [[x]] | p # ps \<Rightarrow> (x # p) # ps))"

definition startsWith :: "string \<Rightarrow> string \<Rightarrow> bool" where
  "startsWith s p = (take (length p) s = p)"

text \<open>
  \<^verbatim>\<open>s.replace(pattern, replacement)\<close> with a string pattern: the first occurrence is
  replaced, and in the replacement \<^verbatim>\<open>$$\<close>, \<^verbatim>\<open>$&\<close>, \<^verbatim>\<open>$`\<close> and \<^verbatim>\<open>$'\<close> stand for a
  dollar sign, the match, the text before it and the text after it.
\<close>

fun find_first :: "string \<Rightarrow> string \<Rightarrow> string \<Rightarrow> (string \<times> string) option" where
  "find_first p seen [] = (if p = [] then Some (rev seen, []) else None)"
| "find_first p seen (c # cs) =
     (if startsWith (c # cs) p then Some (rev seen, drop (length p) (c # cs))
      else find_first p (c # seen) cs)"

fun expand :: "string \<Rightarrow> string \<Rightarrow> string \<Rightarrow> string \<Rightarrow> string" where
  "expand m b a [] = []"
| "expand m b a [c] = [c]"
| "expand m b a (c # d # r) =
     (if c = CHR ''$'' \<and> d = CHR ''$'' then CHR ''$'' # expand m b a r
      else if c = CHR ''$'' \<and> d = CHR ''&'' then m @ expand m b a r
      else if c = CHR ''$'' \<and> d = CHR 0x60 then b @ expand m b a r
      else if c = CHR ''$'' \<and> d = CHR 0x27 then a @ expand m b a r
      else c # expand m b a (d # r))"

definition replace :: "string \<Rightarrow> string \<Rightarrow> string \<Rightarrow> string" where
  "replace s p r =
     (case find_first p [] s of
        None \<Rightarrow> s
      | Some (b, a) \<Rightarrow> b @ expand p b a r @ a)"

text \<open>
  \<^verbatim>\<open>xs.slice(start, end)\<close>: a negative index counts from the end, and both are clamped
  to the array.
\<close>

definition slice_index :: "int \<Rightarrow> nat \<Rightarrow> nat" where
  "slice_index i n = (if i < 0 then nat (max (int n + i) 0) else min (nat i) n)"

definition slice :: "'a list \<Rightarrow> int \<Rightarrow> int \<Rightarrow> 'a list" where
  "slice xs start end_index =
     (let k = slice_index start (length xs); e = slice_index end_index (length xs)
      in take (e - k) (drop k xs))"

text \<open>
  \<^verbatim>\<open>xs.sort(cmp)\<close>. The language fixes that the sort is stable and, for a comparator
  that is a consistent ordering of the elements, that the result is the sorted
  arrangement; which comparisons are made is left to the engine. The model inserts the
  elements one by one, a later element moving in front of an earlier one exactly when the
  comparator called on (later, earlier) is negative. The order it yields for a comparator
  that is not consistent is one of those an engine may produce.
\<close>

fun sort_insert :: "('a \<Rightarrow> 'a \<Rightarrow> int) \<Rightarrow> 'a \<Rightarrow> 'a list \<Rightarrow> 'a list" where
  "sort_insert cmp x [] = [x]"
| "sort_insert cmp x (y # ys) =
     (if cmp y x < 0 then y # sort_insert cmp x ys else x # y # ys)"

fun array_sort :: "('a \<Rightarrow> 'a \<Rightarrow> int) \<Rightarrow> 'a list \<Rightarrow> 'a list" where
  "array_sort cmp [] = []"
| "array_sort cmp (x # xs) = sort_insert cmp x (array_sort cmp xs)"

text \<open>\<^verbatim>\<open>Math.ceil(a / b)\<close> for integers \<open>a\<close> and \<open>b \<noteq> 0\<close>.\<close>

definition ceil_div :: "int \<Rightarrow> int \<Rightarrow> int" where
  "ceil_div a b = - ((- a) div b)"

section \<open>Configuration and rooms\<close>

text \<open>
  The options of the monitor (\<^verbatim>\<open>MonitorOptions\<close> in \<^verbatim>\<open>src-backend/index.ts\<close>), as far
  as the gateway reads them. An optional member is an \<open>option\<close>.
\<close>

record CustomAction =
  action_id :: string
  action_name :: string
  description :: "string option"
  icon :: "string option"
  confirmRequired :: "bool option"
  handler :: string

record AccessControlOptions =
  allowStateInspection :: "bool option"
  allowStateModification :: "bool option"
  allowClientMessages :: "bool option"
  allowRoomDisposal :: "bool option"

record FilterOptions =
  includeTypes :: "string list option"
  excludeTypes :: "string list option"

record RoomListOptions =
  defaultSort :: "string option"
  defaultOrder :: "string option"
  pageSize :: "int option"

record ActionOptions =
  room_actions :: "CustomAction list option"
  client_actions :: "CustomAction list option"

datatype column = Column string | MetadataColumn string

record UiOptions =
  roomList :: "RoomListOptions option"

record MonitorOptions =
  columns :: "column list option"
  ui :: "UiOptions option"
  actions :: "ActionOptions option"
  access :: "AccessControlOptions option"
  filter_options :: "FilterOptions option"

text \<open>
  A room as the registry lists it (\<^verbatim>\<open>matchMaker.query\<close>): the fields the gateway reads
  by name are typed, and \<open>metadata\<close> is any value (\<open>JUndefined\<close> when the room has none).
  \<open>maxClients\<close> is a number: an integer, or \<open>Infinity\<close> for a room without a limit, the
  registry's default. \<open>createdAt\<close> is a timestamp in milliseconds.
\<close>

record RoomSummary =
  roomId :: string
  name :: string
  clients :: int
  maxClients :: number
  locked :: bool
  private_room :: bool
  createdAt :: int
  metadata :: jsval
  publicAddress :: "string option"

text \<open>The room as an object, for the accesses by computed key (\<^verbatim>\<open>room[key]\<close>).\<close>

definition room_obj :: "RoomSummary \<Rightarrow> jsval" where
  "room_obj r = JObj
     [(''roomId'', JStr (roomId r)),
      (''name'', JStr (name r)),
      (''clients'', JNum (clients r)),
      (''maxClients'', number_value (maxClients r)),
      (''locked'', JBool (locked r)),
      (''private'', JBool (private_room r)),
      (''createdAt'', JNum (createdAt r)),
      (''metadata'', metadata r),
      (''publicAddress'', (case publicAddress r of None \<Rightarrow> JUndefined | Some a \<Rightarrow> JStr a))]"

section \<open>The gateway\<close>

subsection \<open>Responses\<close>

text \<open>
  What a handler leaves behind: the JSON response it sent (status and body), or an
  exception that left the handler with no response sent. \<open>handleError\<close> logs the message
  and sends it with the given status (\<open>500\<close> where the source omits it).
\<close>

record pagination_info =
  total :: int
  page :: int
  limit :: int
  pages :: int

record list_body =
  columns_out :: "column list"
  rooms :: "jsval list"
  pagination :: pagination_info
  connections :: int
  cpu :: jsval
  memory :: jsval
  actions_out :: jsval
  access_out :: "AccessControlOptions option"

datatype body = ErrorBody string | RoomList list_body | Data jsval

datatype outcome = Response nat body | Uncaught error

definition handleError :: "string \<Rightarrow> nat \<Rightarrow> outcome" where
  "handleError msg status = Response status (ErrorBody msg)"

definition UNAVAILABLE_ROOM_ERROR :: string where
  "UNAVAILABLE_ROOM_ERROR = ''@colyseus/monitor: room $roomId is not available anymore.''"

definition unavailable :: "string \<Rightarrow> string" where
  "unavailable rid = replace UNAVAILABLE_ROOM_ERROR ''$roomId'' rid"

subsection \<open>Filtering and sorting\<close>

definition applyRoomFilters :: "RoomSummary list \<Rightarrow> FilterOptions option \<Rightarrow> RoomSummary list" where
  "applyRoomFilters rs filterOptions =
     (case filterOptions of
        None \<Rightarrow> rs
      | Some fo \<Rightarrow>
          (let filteredRooms = rs;
               filteredRooms =
                 (case includeTypes fo of
                    Some ts \<Rightarrow>
                      if length ts > 0 then filter (\<lambda>r. name r \<in> set ts) filteredRooms
                      else filteredRooms
                  | None \<Rightarrow> filteredRooms);
               filteredRooms =
                 (case excludeTypes fo of
                    Some ts \<Rightarrow>
                      if length ts > 0 then filter (\<lambda>r. \<not> name r \<in> set ts) filteredRooms
                      else filteredRooms
                  | None \<Rightarrow> filteredRooms)
           in filteredRooms))"

text \<open>The value a room is compared by: the dotted path followed with \<^verbatim>\<open>?.[part]\<close>.\<close>

definition sort_value :: "string \<Rightarrow> RoomSummary \<Rightarrow> jsval" where
  "sort_value sortPath r = foldl get_prop (room_obj r) (split (CHR ''.'') sortPath)"

text \<open>The comparator that \<open>applySorting\<close> hands to the sort.\<close>

definition compare_rooms :: "string \<Rightarrow> string \<Rightarrow> RoomSummary \<Rightarrow> RoomSummary \<Rightarrow> int" where
  "compare_rooms sortPath order a b =
     (let aVal = sort_value sortPath a; bVal = sort_value sortPath b
      in if strict_eq aVal bVal then 0
         else (let result = (if js_less aVal bVal then - 1 else 1)
               in if order = ''desc'' then - result else result))"

definition applySorting :: "RoomSummary list \<Rightarrow> string option \<Rightarrow> string \<Rightarrow> RoomSummary list" where
  "applySorting rs sortPath order =
     (case sortPath of
        None \<Rightarrow> rs
      | Some s \<Rightarrow> if s = [] then rs else array_sort (compare_rooms s order) rs)"

text \<open>
  The query filter of \<^verbatim>\<open>GET /\<close>: every entry of the filter object must equal the room's
  field of that name or the field of that name in its metadata.
\<close>

definition matches_filter :: "(string \<times> jsval) list \<Rightarrow> RoomSummary \<Rightarrow> bool" where
  "matches_filter entries r =
     list_all (\<lambda>(key, v).
        strict_eq (get_prop (room_obj r) key) v
        \<or> (truthy (metadata r) \<and> strict_eq (get_prop (metadata r) key) v)) entries"

text \<open>
  The filter parameter arrives as the outcome of \<^verbatim>\<open>JSON.parse\<close> on its text (\<open>None\<close>
  when the parameter is absent or empty). A parse error, or a \<^verbatim>\<open>TypeError\<close> while
  reading the entries, is caught on the spot and the filter is ignored.
\<close>

definition apply_query_filter ::
  "(error + jsval) option \<Rightarrow> RoomSummary list \<Rightarrow> RoomSummary list" where
  "apply_query_filter f filteredRooms =
     (case f of
        None \<Rightarrow> filteredRooms
      | Some (Inl e) \<Rightarrow> filteredRooms
      | Some (Inr filterObj) \<Rightarrow>
          (case object_entries filterObj of
             Inl e \<Rightarrow> filteredRooms
           | Inr entries \<Rightarrow> filter (matches_filter entries) filteredRooms))"

subsection \<open>The room list: \<^verbatim>\<open>GET /\<close>\<close>

text \<open>
  The request: \<open>page_param\<close> and \<open>limit_param\<close> are the results of \<^verbatim>\<open>parseInt\<close> on the
  parameters, \<open>None\<close> for \<^verbatim>\<open>NaN\<close>.
\<close>

record list_query =
  filter_param :: "(error + jsval) option"
  sort_param :: "string option"
  order_param :: "string option"
  page_param :: "int option"
  limit_param :: "int option"

text \<open>\<^verbatim>\<open>a || b\<close> on optional strings and numbers: the empty string, \<open>0\<close> and \<^verbatim>\<open>NaN\<close> are falsy.\<close>

definition or_string :: "string option \<Rightarrow> string option \<Rightarrow> string option" where
  "or_string a b = (case a of Some s \<Rightarrow> if s \<noteq> [] then Some s else b | None \<Rightarrow> b)"

definition or_number :: "int option \<Rightarrow> int option \<Rightarrow> int option" where
  "or_number a b = (case a of Some n \<Rightarrow> if n \<noteq> 0 then Some n else b | None \<Rightarrow> b)"

definition roomListOptions :: "MonitorOptions \<Rightarrow> RoomListOptions option" where
  "roomListOptions opts = (case ui opts of None \<Rightarrow> None | Some u \<Rightarrow> roomList u)"

definition query_sort :: "MonitorOptions \<Rightarrow> list_query \<Rightarrow> string option" where
  "query_sort opts q =
     or_string (sort_param q)
       (case roomListOptions opts of None \<Rightarrow> None | Some l \<Rightarrow> defaultSort l)"

definition query_order :: "MonitorOptions \<Rightarrow> list_query \<Rightarrow> string" where
  "query_order opts q =
     (case or_string (or_string (order_param q)
             (case roomListOptions opts of None \<Rightarrow> None | Some l \<Rightarrow> defaultOrder l))
           (Some ''asc'') of
        Some s \<Rightarrow> s
      | None \<Rightarrow> ''asc'')"

definition query_page :: "list_query \<Rightarrow> int" where
  "query_page q = (case or_number (page_param q) (Some 1) of Some n \<Rightarrow> n | None \<Rightarrow> 1)"

definition query_limit :: "MonitorOptions \<Rightarrow> list_query \<Rightarrow> int" where
  "query_limit opts q =
     (case or_number (or_number (limit_param q)
             (case roomListOptions opts of None \<Rightarrow> None | Some l \<Rightarrow> pageSize l))
           (Some 100) of
        Some n \<Rightarrow> n
      | None \<Rightarrow> 100)"

definition default_columns :: "column list" where
  "default_columns =
     [Column ''roomId'', Column ''name'', Column ''clients'', Column ''maxClients'',
      Column ''locked'', Column ''elapsedTime'']"

definition list_columns :: "MonitorOptions \<Rightarrow> RoomSummary list \<Rightarrow> column list" where
  "list_columns opts rs =
     (case columns opts of
        Some cs \<Rightarrow> cs
      | None \<Rightarrow>
          (case rs of
             r # _ \<Rightarrow>
               if publicAddress r \<noteq> None then default_columns @ [Column ''publicAddress'']
               else default_columns
           | [] \<Rightarrow> default_columns))"

definition opt_str :: "string option \<Rightarrow> jsval" where
  "opt_str s = (case s of None \<Rightarrow> JUndefined | Some t \<Rightarrow> JStr t)"

definition opt_bool :: "bool option \<Rightarrow> jsval" where
  "opt_bool b = (case b of None \<Rightarrow> JUndefined | Some t \<Rightarrow> JBool t)"

text \<open>What a response shows of a custom action: everything but its handler.\<close>

definition action_view :: "CustomAction \<Rightarrow> jsval" where
  "action_view a = JObj
     [(''id'', JStr (action_id a)),
      (''name'', JStr (action_name a)),
      (''description'', opt_str (description a)),
      (''icon'', opt_str (icon a)),
      (''confirmRequired'', opt_bool (confirmRequired a))]"

definition action_views :: "CustomAction list option \<Rightarrow> jsval" where
  "action_views as = (case as of None \<Rightarrow> JUndefined | Some l \<Rightarrow> JArr (map action_view l))"

definition roomActions :: "MonitorOptions \<Rightarrow> CustomAction list option" where
  "roomActions opts = (case actions opts of None \<Rightarrow> None | Some a \<Rightarrow> room_actions a)"

definition clientActions :: "MonitorOptions \<Rightarrow> CustomAction list option" where
  "clientActions opts = (case actions opts of None \<Rightarrow> None | Some a \<Rightarrow> client_actions a)"

text \<open>
  The formatting of one room of the page: a JSON copy of the room with \<open>locked\<close>,
  \<open>private\<close>, \<open>maxClients\<close> and \<open>elapsedTime\<close> written over it. \<open>now\<close> is \<^verbatim>\<open>Date.now()\<close>.
\<close>

definition assign :: "string \<Rightarrow> jsval \<Rightarrow> jsval \<Rightarrow> jsval" where
  "assign k v data = (case data of JObj kvs \<Rightarrow> JObj (set_entry k v kvs) | d \<Rightarrow> d)"

definition format_room :: "int \<Rightarrow> RoomSummary \<Rightarrow> jsval" where
  "format_room now r =
     (let data = json_copy (room_obj r);
          data = assign ''locked'' (JBool (locked r \<or> False)) data;
          data = assign ''private'' (JBool (private_room r)) data;
          data = assign ''maxClients'' (JStr (number_to_string (maxClients r))) data;
          data = assign ''elapsedTime'' (JNum (now - createdAt r)) data
      in data)"

text \<open>
  The handler. Its inputs beside the options and the request are what it awaits: the
  registry's listing (\<^verbatim>\<open>matchMaker.query\<close>), the clock, and the CPU and memory probes;
  a rejected promise is an \<open>Inl\<close>. The whole body is inside one \<^verbatim>\<open>try\<close>, whose handler
  answers \<open>500\<close> with the error's message.
\<close>

definition room_list ::
  "MonitorOptions \<Rightarrow> list_query \<Rightarrow> error + RoomSummary list \<Rightarrow> int
     \<Rightarrow> error + jsval \<times> jsval \<Rightarrow> outcome" where
  "room_list opts q listing now probes =
     (case listing of
        Inl e \<Rightarrow> handleError (message e) 500
      | Inr rs \<Rightarrow>
          (let sortPath = query_sort opts q;
               order = query_order opts q;
               page_no = query_page q;
               page_limit = query_limit opts q;
               filteredRooms = applyRoomFilters rs (filter_options opts);
               filteredRooms = apply_query_filter (filter_param q) filteredRooms;
               sortedRooms = applySorting filteredRooms sortPath order;
               startIndex = (page_no - 1) * page_limit;
               endIndex = page_no * page_limit;
               paginatedRooms = slice sortedRooms startIndex endIndex;
               connectionCount = foldl (\<lambda>c r. c + clients r) 0 paginatedRooms;
               formattedRooms = map (format_room now) paginatedRooms
           in case probes of
                Inl e \<Rightarrow> handleError (message e) 500
              | Inr (cpu_usage, mem_used) \<Rightarrow>
                  Response 200 (RoomList
                    \<lparr> columns_out = list_columns opts rs,
                      rooms = formattedRooms,
                      pagination =
                        \<lparr> total = int (length filteredRooms),
                          page = page_no,
                          limit = page_limit,
                          pages = ceil_div (int (length filteredRooms)) page_limit \<rparr>,
                      connections = connectionCount,
                      cpu = cpu_usage,
                      memory = mem_used,
                      actions_out = JObj [(''room'', action_views (roomActions opts)),
                                          (''client'', action_views (clientActions opts))],
                      access_out = access opts \<rparr>)))"

subsection \<open>Remote calls: \<^verbatim>\<open>GET /room\<close> and \<^verbatim>\<open>GET /room/call\<close>\<close>

text \<open>
  The registry's remote-call mechanism (\<^verbatim>\<open>matchMaker.remoteRoomCall\<close>) is a parameter:
  given room, method and arguments it returns the room's answer or fails. A handler
  yields the calls it made, in order, beside its outcome, so that "no remote call" is
  the empty list.
\<close>

record remote_call =
  call_room :: string
  call_method :: string
  call_args :: jsval

type_synonym registry = "string \<Rightarrow> string \<Rightarrow> jsval \<Rightarrow> error + jsval"

text \<open>\<^verbatim>\<open>opts.access?.flag === false\<close>\<close>

definition denied :: "MonitorOptions \<Rightarrow> (AccessControlOptions \<Rightarrow> bool option) \<Rightarrow> bool" where
  "denied opts flag = (case access opts of None \<Rightarrow> False | Some a \<Rightarrow> flag a = Some False)"

text \<open>\<^verbatim>\<open>if (list) data.key = list.map(view)\<close>\<close>

definition attach :: "string \<Rightarrow> CustomAction list option \<Rightarrow> jsval \<Rightarrow> error + jsval" where
  "attach key as data =
     (case as of None \<Rightarrow> Inr data | Some l \<Rightarrow> set_prop data key (JArr (map action_view l)))"

definition room_inspect :: "MonitorOptions \<Rightarrow> registry \<Rightarrow> string \<Rightarrow> remote_call list \<times> outcome" where
  "room_inspect opts remote rid =
     (if denied opts allowStateInspection
      then ([], handleError ''State inspection is not allowed'' 403)
      else
        (let call = \<lparr> call_room = rid, call_method = ''getInspectData'', call_args = JUndefined \<rparr>
         in case remote rid ''getInspectData'' JUndefined of
              Inl e \<Rightarrow> ([call], handleError (unavailable rid) 500)
            | Inr inspectData \<Rightarrow>
                (case attach ''actions'' (roomActions opts) inspectData of
                   Inl e \<Rightarrow> ([call], handleError (unavailable rid) 500)
                 | Inr d1 \<Rightarrow>
                     (case attach ''clientActions'' (clientActions opts) d1 of
                        Inl e \<Rightarrow> ([call], handleError (unavailable rid) 500)
                      | Inr d2 \<Rightarrow> ([call], Response 200 (Data d2))))))"

text \<open>
  The request of \<^verbatim>\<open>GET /room/call\<close>. \<open>req_args\<close> is the outcome of \<^verbatim>\<open>JSON.parse\<close> on
  the \<^verbatim>\<open>args\<close> parameter (on \<^verbatim>\<open>"[]"\<close> when it is absent or empty): the value, or the
  \<^verbatim>\<open>SyntaxError\<close> thrown for text that is not JSON.
\<close>

record call_request =
  req_roomId :: string
  req_method :: "string option"
  req_args :: "error + jsval"

text \<open>One awaited remote call inside the \<^verbatim>\<open>try\<close>: the answer is sent as it is.\<close>

definition call_and_respond ::
  "registry \<Rightarrow> string \<Rightarrow> string \<Rightarrow> jsval \<Rightarrow> remote_call list \<times> outcome" where
  "call_and_respond remote rid m args =
     (let call = \<lparr> call_room = rid, call_method = m, call_args = args \<rparr>
      in case remote rid m args of
           Inl e \<Rightarrow> ([call], handleError (unavailable rid) 500)
         | Inr data \<Rightarrow> ([call], Response 200 (Data data)))"

text \<open>\<^verbatim>\<open>[...args]\<close>: the elements of an array, the characters of a string.\<close>

fun spread :: "jsval \<Rightarrow> error + jsval list" where
  "spread (JArr xs) = Inr xs"
| "spread (JStr s) = Inr (map (\<lambda>c. JStr [c]) s)"
| "spread _ = Inl (TypeError ''args is not iterable'')"

definition find_action :: "CustomAction list option \<Rightarrow> string \<Rightarrow> CustomAction option" where
  "find_action as actionId =
     (case as of None \<Rightarrow> None | Some l \<Rightarrow> List.find (\<lambda>a. action_id a = actionId) l)"

text \<open>
  The handler. \<^verbatim>\<open>JSON.parse\<close> of the arguments stands before the \<^verbatim>\<open>try\<close>; everything
  else is inside it, and its \<^verbatim>\<open>catch\<close> answers \<open>500\<close> with the unavailable-room message
  (so does a missing \<^verbatim>\<open>method\<close> parameter, on which \<^verbatim>\<open>startsWith\<close> throws).
\<close>

definition room_call :: "MonitorOptions \<Rightarrow> registry \<Rightarrow> call_request \<Rightarrow> remote_call list \<times> outcome" where
  "room_call opts remote req =
     (case req_args req of
        Inl e \<Rightarrow> ([], Uncaught e)
      | Inr args \<Rightarrow>
          (let rid = req_roomId req in
           if req_method req = Some ''disconnect'' \<and> denied opts allowRoomDisposal
           then ([], handleError ''Room disposal is not allowed'' 403)
           else if req_method req = Some ''_sendMessageToClient'' \<and> denied opts allowClientMessages
           then ([], handleError ''Sending client messages is not allowed'' 403)
           else
             (case req_method req of
                None \<Rightarrow> ([], handleError (unavailable rid) 500)
              | Some m \<Rightarrow>
                  if startsWith m ''customAction:'' then
                    (let actionId = replace m ''customAction:'' [] in
                     case find_action (roomActions opts) actionId of
                       Some a \<Rightarrow>
                         if handler a \<noteq> [] then call_and_respond remote rid (handler a) args
                         else ([], handleError (''Custom action '' @ actionId @ '' not found'') 404)
                     | None \<Rightarrow>
                         ([], handleError (''Custom action '' @ actionId @ '' not found'') 404))
                  else if startsWith m ''customClientAction:'' then
                    (let parts = split (CHR '':'') (replace m ''customClientAction:'' []);
                         actionId = hd parts;
                         clientId = (if 1 < length parts then JStr (parts ! 1) else JUndefined)
                     in
                     case find_action (clientActions opts) actionId of
                       Some a \<Rightarrow>
                         if handler a \<noteq> [] then
                           (case spread args of
                              Inl e \<Rightarrow> ([], handleError (unavailable rid) 500)
                            | Inr xs \<Rightarrow>
                                call_and_respond remote rid (handler a) (JArr (clientId # xs)))
                         else ([], handleError
                                 (''Custom client action '' @ actionId @ '' not found'') 404)
                     | None \<Rightarrow>
                         ([], handleError
                            (''Custom client action '' @ actionId @ '' not found'') 404))
                  else call_and_respond remote rid m args)))"

section \<open>Examples and vocabulary for the statements\<close>

text \<open>
  The configuration of the README's comprehensive example, the default configuration
  (\<^verbatim>\<open>monitor()\<close> with no options), and a registry in which every room answers a call
  by echoing it.
\<close>

definition example_options :: MonitorOptions where
  "example_options =
     \<lparr> columns = Some [Column ''roomId'', Column ''name'', Column ''clients'',
                        MetadataColumn ''gameMode'', Column ''locked'', Column ''elapsedTime''],
       ui = Some \<lparr> roomList = Some \<lparr> defaultSort = Some ''clients'',
                                       defaultOrder = Some ''desc'', pageSize = Some 20 \<rparr> \<rparr>,
       actions = Some
         \<lparr> room_actions = Some
             [\<lparr> action_id = ''restart'', action_name = ''Restart Room'',
                description = Some ''Reset the room state'', icon = Some ''refresh'',
                confirmRequired = Some True, handler = ''restartRoom'' \<rparr>],
           client_actions = Some
             [\<lparr> action_id = ''ping'', action_name = ''Ping Client'',
                description = Some ''Send a ping to the client'', icon = Some ''wifi'',
                confirmRequired = Some False, handler = ''pingClient'' \<rparr>] \<rparr>,
       access = Some \<lparr> allowStateInspection = Some True, allowStateModification = Some False,
                       allowClientMessages = Some True, allowRoomDisposal = Some True \<rparr>,
       filter_options = Some \<lparr> includeTypes = Some [''GameRoom''],
                               excludeTypes = Some [''LobbyRoom''] \<rparr> \<rparr>"

definition default_options :: MonitorOptions where
  "default_options =
     \<lparr> columns = None, ui = None, actions = None, access = None, filter_options = None \<rparr>"

definition echo_registry :: registry where
  "echo_registry rid m args = Inr (JObj [(''method'', JStr m), (''args'', args)])"

text \<open>The ids under which custom actions of one scope are registered.\<close>

definition registered_ids :: "CustomAction list option \<Rightarrow> string set" where
  "registered_ids as = (case as of None \<Rightarrow> {} | Some l \<Rightarrow> action_id ` set l)"

text \<open>Scenario A of the specification: three rooms of one type with 2, 5 and 1 clients.\<close>

definition scenario_rooms :: "RoomSummary list" where
  "scenario_rooms =
     [\<lparr> roomId = ''a'', name = ''GameRoom'', clients = 2, maxClients = Integer 8, locked = False,
        private_room = False, createdAt = 1000, metadata = JUndefined, publicAddress = None \<rparr>,
      \<lparr> roomId = ''b'', name = ''GameRoom'', clients = 5, maxClients = Integer 8, locked = False,
        private_room = False, createdAt = 2000, metadata = JUndefined, publicAddress = None \<rparr>,
      \<lparr> roomId = ''c'', name = ''GameRoom'', clients = 1, maxClients = Integer 8, locked = False,
        private_room = False, createdAt = 3000, metadata = JUndefined, publicAddress = None \<rparr>]"

definition scenario_query :: list_query where
  "scenario_query =
     \<lparr> filter_param = None, sort_param = Some ''clients'', order_param = Some ''desc'',
       page_param = None, limit_param = Some 2 \<rparr>"

text \<open>The rooms that pass the configured type filter and the query filter.\<close>

definition filtered_rooms ::
  "MonitorOptions \<Rightarrow> (error + jsval) option \<Rightarrow> RoomSummary list \<Rightarrow> RoomSummary list" where
  "filtered_rooms opts f rs = apply_query_filter f (applyRoomFilters rs (filter_options opts))"

text \<open>The two type tests of \<open>FilterOptions\<close>; an absent or empty list tests nothing.\<close>

definition included :: "FilterOptions \<Rightarrow> RoomSummary \<Rightarrow> bool" where
  "included fo r =
     (case includeTypes fo of Some ts \<Rightarrow> ts = [] \<or> name r \<in> set ts | None \<Rightarrow> True)"

definition not_excluded :: "FilterOptions \<Rightarrow> RoomSummary \<Rightarrow> bool" where
  "not_excluded fo r =
     (case excludeTypes fo of Some ts \<Rightarrow> ts = [] \<or> name r \<notin> set ts | None \<Rightarrow> True)"

text \<open>The client count a formatted room shows.\<close>

definition clients_shown :: "jsval \<Rightarrow> int" where
  "clients_shown d = (case get_prop d ''clients'' of JNum n \<Rightarrow> n | _ \<Rightarrow> 0)"

text \<open>
  The record shape the specification declares for a returned room: \<open>maxClients\<close> and
  \<open>clients\<close> are non-negative integers.
\<close>

definition nonneg_integer :: "jsval \<Rightarrow> bool" where
  "nonneg_integer v = (case v of JNum n \<Rightarrow> 0 \<le> n | _ \<Rightarrow> False)"

definition summary_shape :: "outcome \<Rightarrow> bool" where
  "summary_shape out =
     (case out of
        Response s (RoomList b) \<Rightarrow>
          list_all (\<lambda>d. nonneg_integer (get_prop d ''maxClients'')
                       \<and> nonneg_integer (get_prop d ''clients'')) (rooms b)
      | _ \<Rightarrow> True)"

text \<open>The page of a request: the window cut out of the sorted, filtered rooms.\<close>

definition list_page :: "MonitorOptions \<Rightarrow> list_query \<Rightarrow> RoomSummary list \<Rightarrow> RoomSummary list" where
  "list_page opts q rs =
     slice (applySorting (filtered_rooms opts (filter_param q) rs)
              (query_sort opts q) (query_order opts q))
       ((query_page q - 1) * query_limit opts q) (query_page q * query_limit opts q)"

text \<open>A listing with rooms of three types, and the type filter of the README.\<close>

definition mixed_rooms :: "RoomSummary list" where
  "mixed_rooms =
     [\<lparr> roomId = ''g1'', name = ''GameRoom'', clients = 3, maxClients = Integer 8, locked = False,
        private_room = False, createdAt = 1000, metadata = JUndefined, publicAddress = None \<rparr>,
      \<lparr> roomId = ''l1'', name = ''LobbyRoom'', clients = 40, maxClients = Integer 100, locked = False,
        private_room = False, createdAt = 1500, metadata = JUndefined, publicAddress = None \<rparr>,
      \<lparr> roomId = ''c1'', name = ''ChatRoom'', clients = 7, maxClients = Integer 100, locked = False,
        private_room = False, createdAt = 2000, metadata = JUndefined, publicAddress = None \<rparr>,
      \<lparr> roomId = ''g2'', name = ''GameRoom'', clients = 1, maxClients = Integer 8, locked = True,
        private_room = False, createdAt = 2500, metadata = JUndefined, publicAddress = None \<rparr>]"

definition example_filter :: FilterOptions where
  "example_filter = \<lparr> includeTypes = Some [''GameRoom''], excludeTypes = Some [''LobbyRoom''] \<rparr>"









text \<open>
  A listing with a room without a limit, as the registry creates rooms by default, and a
  request with no parameters.
\<close>

definition open_rooms :: "RoomSummary list" where
  "open_rooms =
     [\<lparr> roomId = ''o1'', name = ''LobbyRoom'', clients = 40, maxClients = Infinity,
        locked = False, private_room = False, createdAt = 1000, metadata = JUndefined,
        publicAddress = None \<rparr>,
      \<lparr> roomId = ''o2'', name = ''GameRoom'', clients = 3, maxClients = Integer 8,
        locked = False, private_room = False, createdAt = 2000, metadata = JUndefined,
        publicAddress = None \<rparr>]"

definition plain_query :: list_query where
  "plain_query =
     \<lparr> filter_param = None, sort_param = None, order_param = None, page_param = None,
       limit_param = None \<rparr>"

section \<open>Properties of the host-language operations\<close>


lemma number_value_defined: "number_value x \<noteq> JUndefined"
  by (cases x) simp_all

lemma show_nat_digit: "n < 10 \<Longrightarrow> show_nat n = [digit_char n]"
  by (simp add: show_nat.simps)

lemma show_nat_step:
  "10 \<le> n \<Longrightarrow> show_nat n = show_nat (n div 10) @ [digit_char (n mod 10)]"
  by (simp add: show_nat.simps)

text \<open>From \<open>10\<^sup>2\<^sup>1\<close> on a number is written in exponent notation.\<close>

lemma exponent_text_example:
  "number_to_string (Integer 1000000000000000000000) = ''1e+21''"
  "number_to_string (Integer 15000000000000000000000) = ''1.5e+22''"
  by (simp_all add: integer_to_string_def exponent_text_def show_nat_step show_nat_digit
      digit_char_def)

text \<open>Below \<open>2\<^sup>5\<^sup>3\<close> in magnitude the text of an integer is its decimal text.\<close>

lemma safe_integer_text: "\<bar>n\<bar> < 2 ^ 53 \<Longrightarrow> number_to_string (Integer n) = show_int n"
  by (simp add: integer_to_string_def)




lemma startsWith_append: "startsWith (p @ s) p"
  by (simp add: startsWith_def)

lemma find_first_prefix: "p \<noteq> [] \<Longrightarrow> find_first p [] (p @ s) = Some ([], s)"
  by (cases p) (simp_all add: startsWith_def)

lemma replace_prefix_empty: "p \<noteq> [] \<Longrightarrow> replace (p @ s) p [] = s"
  by (simp add: replace_def find_first_prefix)

lemma split_no_sep: "c \<notin> set s \<Longrightarrow> split c (s @ c # t) = s # split c t"
  by (induction s) (auto split: list.splits)

section \<open>Remote calls\<close>

lemma not_client_prefix: "\<not> startsWith (''customClientAction:'' @ s) ''customAction:''"
  by (simp add: startsWith_def)

lemma custom_not_builtin:
  "''customAction:'' @ s \<noteq> ''disconnect''"
  "''customAction:'' @ s \<noteq> ''_sendMessageToClient''"
  "''customClientAction:'' @ s \<noteq> ''disconnect''"
  "''customClientAction:'' @ s \<noteq> ''_sendMessageToClient''"
  by simp_all

lemma find_action_None: "aid \<notin> registered_ids as \<Longrightarrow> find_action as aid = None"
  by (auto simp: find_action_def registered_ids_def find_None_iff split: option.splits)

lemma denied_iff: "denied opts flag \<longleftrightarrow> (\<exists>a. access opts = Some a \<and> flag a = Some False)"
  by (simp add: denied_def split: option.splits)

lemma room_inspect_403:
  "(\<exists>b. snd (room_inspect opts remote rid) = Response 403 b) \<longleftrightarrow> denied opts allowStateInspection"
  by (auto simp: room_inspect_def handleError_def Let_def split: sum.splits)

lemma room_inspect_calls:
  "\<not> denied opts allowStateInspection \<Longrightarrow>
   fst (room_inspect opts remote rid)
   = [\<lparr> call_room = rid, call_method = ''getInspectData'', call_args = JUndefined \<rparr>]"
  by (auto simp: room_inspect_def handleError_def Let_def split: sum.splits)

lemma call_and_respond_not_403: "snd (call_and_respond remote rid m args) \<noteq> Response 403 b"
  by (auto simp: call_and_respond_def handleError_def Let_def split: sum.splits)

lemma call_and_respond_calls:
  "fst (call_and_respond remote rid m args)
   = [\<lparr> call_room = rid, call_method = m, call_args = args \<rparr>]"
  by (auto simp: call_and_respond_def handleError_def Let_def split: sum.splits)

lemma room_call_disconnect:
  "room_call opts remote
     \<lparr> req_roomId = rid, req_method = Some ''disconnect'', req_args = Inr args \<rparr>
   = (if denied opts allowRoomDisposal
      then ([], Response 403 (ErrorBody ''Room disposal is not allowed''))
      else call_and_respond remote rid ''disconnect'' args)"
  by (simp add: room_call_def handleError_def startsWith_def)

lemma room_call_send:
  "room_call opts remote
     \<lparr> req_roomId = rid, req_method = Some ''_sendMessageToClient'', req_args = Inr args \<rparr>
   = (if denied opts allowClientMessages
      then ([], Response 403 (ErrorBody ''Sending client messages is not allowed''))
      else call_and_respond remote rid ''_sendMessageToClient'' args)"
  by (simp add: room_call_def handleError_def startsWith_def)

text \<open>
  C1. A state-mutating call is to be refused with \<open>403\<close>, and no remote call made, when
  \<open>allowStateModification\<close> is disabled. The handler has no check of that flag: under the
  README's configuration, which sets it to false, \<^verbatim>\<open>_updateRoomState\<close> reaches the
  registry and its answer is sent with status \<open>200\<close>.
\<close>

theorem state_modification_unguarded:
  "room_call example_options echo_registry
     \<lparr> req_roomId = ''r1'', req_method = Some ''_updateRoomState'',
       req_args = Inr (JArr [JStr ''score'', JNum 1]) \<rparr>
   = ([\<lparr> call_room = ''r1'', call_method = ''_updateRoomState'',
         call_args = JArr [JStr ''score'', JNum 1] \<rparr>],
      Response 200 (Data (JObj [(''method'', JStr ''_updateRoomState''),
                                (''args'', JArr [JStr ''score'', JNum 1])])))"
  by (simp add: room_call_def example_options_def denied_def startsWith_def call_and_respond_def
      echo_registry_def)

text \<open>
  C6. Every failure is to become an HTTP error response. In \<^verbatim>\<open>GET /room/call\<close> the
  arguments are parsed before the \<^verbatim>\<open>try\<close>: when the \<^verbatim>\<open>args\<close> parameter is not JSON, the
  \<^verbatim>\<open>SyntaxError\<close> leaves the handler, whatever the options, the room and the method, and
  no response is sent.
\<close>

theorem malformed_args_escape:
  "room_call opts remote \<lparr> req_roomId = rid, req_method = m, req_args = Inl e \<rparr>
   = ([], Uncaught e)"
  by (simp add: room_call_def)

text \<open>
  C7. A call of \<^verbatim>\<open>customAction:<id>\<close> whose id is not registered among the room actions
  is answered \<open>404\<close> with the message \<^verbatim>\<open>Custom action <id> not found\<close>, and a call of
  \<^verbatim>\<open>customClientAction:<id>:<clientId>\<close> whose id (the text up to the separating colon)
  is not registered among the client actions is answered \<open>404\<close> with
  \<^verbatim>\<open>Custom client action <id> not found\<close>; in both cases no remote call is made.
\<close>

theorem unknown_custom_action_404:
  "(aid \<notin> registered_ids (roomActions opts) \<longrightarrow>
      room_call opts remote
        \<lparr> req_roomId = rid, req_method = Some (''customAction:'' @ aid), req_args = Inr args \<rparr>
      = ([], Response 404 (ErrorBody (''Custom action '' @ aid @ '' not found''))))
   \<and> (aid \<notin> registered_ids (clientActions opts) \<and> CHR '':'' \<notin> set aid \<longrightarrow>
      room_call opts remote
        \<lparr> req_roomId = rid, req_method = Some (''customClientAction:'' @ aid @ '':'' @ cid),
          req_args = Inr args \<rparr>
      = ([], Response 404 (ErrorBody (''Custom client action '' @ aid @ '' not found''))))"
proof (intro conjI impI)
  assume a: "aid \<notin> registered_ids (roomActions opts)"
  have r: "replace (''customAction:'' @ aid) ''customAction:'' [] = aid"
    by (rule replace_prefix_empty) simp
  show "room_call opts remote
        \<lparr> req_roomId = rid, req_method = Some (''customAction:'' @ aid), req_args = Inr args \<rparr>
      = ([], Response 404 (ErrorBody (''Custom action '' @ aid @ '' not found'')))"
    unfolding room_call_def
    by (simp add: startsWith_append r find_action_None[OF a] handleError_def custom_not_builtin
        del: append.simps)
next
  assume "aid \<notin> registered_ids (clientActions opts) \<and> CHR '':'' \<notin> set aid"
  then have a: "aid \<notin> registered_ids (clientActions opts)" and c: "CHR '':'' \<notin> set aid"
    by auto
  have r: "replace (''customClientAction:'' @ aid @ '':'' @ cid) ''customClientAction:'' []
           = aid @ '':'' @ cid"
    by (rule replace_prefix_empty) simp
  have s: "split (CHR '':'') (aid @ '':'' @ cid) = aid # split (CHR '':'') cid"
    using split_no_sep[OF c] by simp
  show "room_call opts remote
        \<lparr> req_roomId = rid, req_method = Some (''customClientAction:'' @ aid @ '':'' @ cid),
          req_args = Inr args \<rparr>
      = ([], Response 404 (ErrorBody (''Custom client action '' @ aid @ '' not found'')))"
    unfolding room_call_def
    by (simp add: startsWith_append not_client_prefix r s find_action_None[OF a] handleError_def
        custom_not_builtin del: append.simps)
qed

theorem unknown_custom_action_404_witness:
  "''reboot'' \<notin> registered_ids (roomActions example_options)
   \<and> room_call example_options echo_registry
        \<lparr> req_roomId = ''r1'', req_method = Some ''customAction:reboot'',
          req_args = Inr (JArr []) \<rparr>
      = ([], Response 404 (ErrorBody ''Custom action reboot not found''))
   \<and> ''kick'' \<notin> registered_ids (clientActions example_options) \<and> CHR '':'' \<notin> set ''kick''
   \<and> room_call example_options echo_registry
        \<lparr> req_roomId = ''r1'', req_method = Some ''customClientAction:kick:c7'',
          req_args = Inr (JArr []) \<rparr>
      = ([], Response 404 (ErrorBody ''Custom client action kick not found''))"
  using unknown_custom_action_404
          [of "''reboot''" example_options echo_registry "''r1''" "JArr []" "''c7''"]
        unknown_custom_action_404
          [of "''kick''" example_options echo_registry "''r1''" "JArr []" "''c7''"]
  by (simp add: registered_ids_def roomActions_def clientActions_def example_options_def)

text \<open>
  C10. The guard is fail-open. \<^verbatim>\<open>GET /room\<close> answers \<open>403\<close> exactly when the access
  options are present and \<open>allowStateInspection\<close> is explicitly false, and otherwise makes
  the \<^verbatim>\<open>getInspectData\<close> call; \<^verbatim>\<open>GET /room/call\<close> with \<^verbatim>\<open>disconnect\<close>
  (\<^verbatim>\<open>_sendMessageToClient\<close>) answers \<open>403\<close> exactly when \<open>allowRoomDisposal\<close>
  (\<open>allowClientMessages\<close>) is explicitly false, and otherwise dispatches the call to the
  registry. Absent options and absent flags allow the operation.
\<close>

theorem guard_fail_open:
  "((\<exists>b. snd (room_inspect opts remote rid) = Response 403 b)
      \<longleftrightarrow> (\<exists>a. access opts = Some a \<and> allowStateInspection a = Some False))
   \<and> (\<not> (\<exists>a. access opts = Some a \<and> allowStateInspection a = Some False) \<longrightarrow>
        fst (room_inspect opts remote rid)
        = [\<lparr> call_room = rid, call_method = ''getInspectData'', call_args = JUndefined \<rparr>])
   \<and> ((\<exists>b. snd (room_call opts remote
                 \<lparr> req_roomId = rid, req_method = Some ''disconnect'', req_args = Inr args \<rparr>)
            = Response 403 b)
      \<longleftrightarrow> (\<exists>a. access opts = Some a \<and> allowRoomDisposal a = Some False))
   \<and> (\<not> (\<exists>a. access opts = Some a \<and> allowRoomDisposal a = Some False) \<longrightarrow>
        fst (room_call opts remote
               \<lparr> req_roomId = rid, req_method = Some ''disconnect'', req_args = Inr args \<rparr>)
        = [\<lparr> call_room = rid, call_method = ''disconnect'', call_args = args \<rparr>])
   \<and> ((\<exists>b. snd (room_call opts remote
                 \<lparr> req_roomId = rid, req_method = Some ''_sendMessageToClient'',
                   req_args = Inr args \<rparr>)
            = Response 403 b)
      \<longleftrightarrow> (\<exists>a. access opts = Some a \<and> allowClientMessages a = Some False))
   \<and> (\<not> (\<exists>a. access opts = Some a \<and> allowClientMessages a = Some False) \<longrightarrow>
        fst (room_call opts remote
               \<lparr> req_roomId = rid, req_method = Some ''_sendMessageToClient'',
                 req_args = Inr args \<rparr>)
        = [\<lparr> call_room = rid, call_method = ''_sendMessageToClient'', call_args = args \<rparr>])"
  unfolding denied_iff [symmetric] room_call_disconnect room_call_send
  by (simp add: room_inspect_403 room_inspect_calls call_and_respond_not_403
      call_and_respond_calls)

theorem guard_fail_open_witness:
  "\<not> (\<exists>a. access default_options = Some a \<and> allowStateInspection a = Some False)
   \<and> fst (room_inspect default_options echo_registry ''r1'')
     = [\<lparr> call_room = ''r1'', call_method = ''getInspectData'', call_args = JUndefined \<rparr>]
   \<and> \<not> (\<exists>a. access example_options = Some a \<and> allowRoomDisposal a = Some False)
   \<and> fst (room_call example_options echo_registry
            \<lparr> req_roomId = ''r1'', req_method = Some ''disconnect'', req_args = Inr (JArr []) \<rparr>)
     = [\<lparr> call_room = ''r1'', call_method = ''disconnect'', call_args = JArr [] \<rparr>]
   \<and> \<not> (\<exists>a. access default_options = Some a \<and> allowClientMessages a = Some False)
   \<and> fst (room_call default_options echo_registry
            \<lparr> req_roomId = ''r1'', req_method = Some ''_sendMessageToClient'',
              req_args = Inr (JArr []) \<rparr>)
     = [\<lparr> call_room = ''r1'', call_method = ''_sendMessageToClient'', call_args = JArr [] \<rparr>]"
  using guard_fail_open [of default_options echo_registry "''r1''" "JArr []"]
        guard_fail_open [of example_options echo_registry "''r1''" "JArr []"]
  by (simp add: default_options_def example_options_def)

section \<open>The room list\<close>

lemma ceil_div_ceiling: "ceil_div a b = \<lceil>real_of_int a / real_of_int b\<rceil>"
  by (simp add: ceil_div_def ceiling_divide_eq_div)

lemma slice_window:
  assumes "0 \<le> s" "s \<le> e"
  shows "slice xs s e = take (nat (e - s)) (drop (nat s) xs)"
proof (cases "nat s \<ge> length xs")
  case True
  then show ?thesis using assms by (simp add: slice_def slice_index_def Let_def)
next
  case False
  then show ?thesis using assms
    by (auto simp: slice_def slice_index_def Let_def min_def nat_diff_distrib)
qed

lemma set_slice: "set (slice xs s e) \<subseteq> set xs"
  unfolding slice_def Let_def
  by (meson set_take_subset set_drop_subset subset_trans)

lemma set_sort_insert: "set (sort_insert cmp x ys) = insert x (set ys)"
  by (induction ys) auto

lemma set_array_sort: "set (array_sort cmp xs) = set xs"
  by (induction xs) (auto simp: set_sort_insert)

lemma set_applySorting: "set (applySorting rs s ord) = set rs"
  by (simp add: applySorting_def set_array_sort split: option.splits)

lemma length_sort_insert: "length (sort_insert cmp x ys) = Suc (length ys)"
  by (induction ys) auto

lemma length_array_sort: "length (array_sort cmp xs) = length xs"
  by (induction xs) (auto simp: length_sort_insert)

lemma length_applySorting: "length (applySorting rs s ord) = length rs"
  by (simp add: applySorting_def length_array_sort split: option.splits)

lemma set_apply_query_filter: "set (apply_query_filter f rs) \<subseteq> set rs"
  by (auto simp: apply_query_filter_def split: option.splits sum.splits)

lemma foldl_clients: "foldl (\<lambda>c r. c + clients r) a rs = a + sum_list (map clients rs)"
  by (induction rs arbitrary: a) auto

lemma map_of_set_entry: "map_of (set_entry k v kvs) = (map_of kvs)(k \<mapsto> v)"
  by (induction kvs) (auto simp: fun_eq_iff)

lemma get_prop_assign:
  "get_prop (assign k v (JObj kvs)) k' = (if k' = k then v else get_prop (JObj kvs) k')"
  by (simp add: assign_def map_of_set_entry)

lemma assign_obj: "assign k v (JObj kvs) = JObj (set_entry k v kvs)"
  by (simp add: assign_def)

lemma format_room_maxClients:
  "get_prop (format_room now r) ''maxClients'' = JStr (number_to_string (maxClients r))"
  by (simp add: format_room_def room_obj_def assign_obj map_of_set_entry)

lemma format_room_clients: "get_prop (format_room now r) ''clients'' = JNum (clients r)"
  by (simp add: format_room_def room_obj_def assign_obj map_of_set_entry)

lemma format_room_name: "get_prop (format_room now r) ''name'' = JStr (name r)"
  by (simp add: format_room_def room_obj_def assign_obj map_of_set_entry)

lemma room_list_ok:
  "room_list opts q (Inr rs) now (Inr (c, m)) =
     Response 200 (RoomList
       \<lparr> columns_out = list_columns opts rs,
         rooms = map (format_room now) (list_page opts q rs),
         pagination =
           \<lparr> total = int (length (filtered_rooms opts (filter_param q) rs)),
             page = query_page q,
             limit = query_limit opts q,
             pages = ceil_div (int (length (filtered_rooms opts (filter_param q) rs)))
                       (query_limit opts q) \<rparr>,
         connections = sum_list (map clients (list_page opts q rs)),
         cpu = c,
         memory = m,
         actions_out = JObj [(''room'', action_views (roomActions opts)),
                             (''client'', action_views (clientActions opts))],
         access_out = access opts \<rparr>)"
  by (simp add: room_list_def Let_def filtered_rooms_def foldl_clients list_page_def)

lemma room_list_rooms:
  assumes "room_list opts q (Inr rs) now (Inr m) = Response 200 (RoomList b)"
  shows "rooms b = map (format_room now) (list_page opts q rs)"
    and "connections b = sum_list (map clients (list_page opts q rs))"
proof -
  obtain c u where m: "m = (c, u)" by (cases m)
  have "room_list opts q (Inr rs) now (Inr m) = Response 200 (RoomList
       \<lparr> columns_out = list_columns opts rs,
         rooms = map (format_room now) (list_page opts q rs),
         pagination =
           \<lparr> total = int (length (filtered_rooms opts (filter_param q) rs)),
             page = query_page q,
             limit = query_limit opts q,
             pages = ceil_div (int (length (filtered_rooms opts (filter_param q) rs)))
                       (query_limit opts q) \<rparr>,
         connections = sum_list (map clients (list_page opts q rs)),
         cpu = c,
         memory = u,
         actions_out = JObj [(''room'', action_views (roomActions opts)),
                             (''client'', action_views (clientActions opts))],
         access_out = access opts \<rparr>)" (is "_ = Response 200 (RoomList ?B)")
    unfolding m by (rule room_list_ok)
  with assms have b: "b = ?B" by simp
  show "rooms b = map (format_room now) (list_page opts q rs)"
    unfolding b by simp
  show "connections b = sum_list (map clients (list_page opts q rs))"
    unfolding b by simp
qed

lemma room_list_succeeds:
  "\<exists>b. room_list opts q (Inr rs) now (Inr m) = Response 200 (RoomList b)"
  by (cases m) (simp add: room_list_ok)

lemma set_list_page:
  "set (list_page opts q rs) \<subseteq> set (applyRoomFilters rs (filter_options opts))"
proof -
  have "set (list_page opts q rs)
        \<subseteq> set (applySorting (filtered_rooms opts (filter_param q) rs)
                 (query_sort opts q) (query_order opts q))"
    unfolding list_page_def by (rule set_slice)
  also have "\<dots> = set (filtered_rooms opts (filter_param q) rs)"
    by (rule set_applySorting)
  also have "\<dots> \<subseteq> set (applyRoomFilters rs (filter_options opts))"
    unfolding filtered_rooms_def by (rule set_apply_query_filter)
  finally show ?thesis .
qed

lemma shown_rooms_filtered:
  assumes "room_list opts q (Inr rs) now (Inr m) = Response 200 (RoomList b)"
    and "d \<in> set (rooms b)"
  shows "\<exists>r \<in> set (applyRoomFilters rs (filter_options opts)). d = format_room now r"
proof -
  from assms(2) obtain r where "r \<in> set (list_page opts q rs)" "d = format_room now r"
    unfolding room_list_rooms(1)[OF assms(1)] by auto
  then show ?thesis using set_list_page by blast
qed

text \<open>A page and a limit given in the request, and not \<open>0\<close>, are the ones in effect.\<close>

lemma query_page_limit:
  "p \<noteq> 0 \<Longrightarrow> query_page (q\<lparr>page_param := Some p, limit_param := Some l\<rparr>) = p"
  "l \<noteq> 0 \<Longrightarrow> query_limit opts (q\<lparr>page_param := Some p, limit_param := Some l\<rparr>) = l"
  "query_sort opts (q\<lparr>page_param := Some p, limit_param := Some l\<rparr>) = query_sort opts q"
  "query_order opts (q\<lparr>page_param := Some p, limit_param := Some l\<rparr>) = query_order opts q"
  by (simp_all add: query_page_def query_limit_def query_sort_def query_order_def or_number_def)

text \<open>The limit is never \<open>0\<close>, so the page count is a quotient by a non-zero number.\<close>

lemma query_limit_not_zero: "query_limit opts q \<noteq> 0"
  by (simp add: query_limit_def or_number_def split: option.splits)

lemma ceil_div_covers: "0 < b \<Longrightarrow> a \<le> ceil_div a b * b"
proof -
  assume b: "0 < b"
  have "real_of_int a / real_of_int b \<le> real_of_int (ceil_div a b)"
    by (simp add: ceil_div_ceiling)
  then have "real_of_int a \<le> real_of_int (ceil_div a b) * real_of_int b"
    using b by (simp add: pos_divide_le_eq)
  then show ?thesis
    by (metis of_int_le_iff of_int_mult)
qed

lemma beyond_last_page:
  assumes "1 \<le> l" "ceil_div (int (length xs)) l < p"
  shows "drop (nat ((p - 1) * l)) xs = []"
proof -
  have "int (length xs) \<le> ceil_div (int (length xs)) l * l"
    using assms(1) by (intro ceil_div_covers) simp
  also have "\<dots> \<le> (p - 1) * l"
    using assms by (intro mult_right_mono) auto
  finally show ?thesis by simp
qed

text \<open>
  C4. Let \<open>p \<ge> 1\<close> be the page and \<open>l \<ge> 1\<close> the limit of a request (as given, or the
  defaults). The response of \<^verbatim>\<open>GET /\<close> reports as \<open>total\<close> the number of rooms left by
  the filters, a number in which \<open>p\<close> and \<open>l\<close> play no part, and as \<open>pages\<close> the ceiling of
  \<open>total / l\<close>; the rooms returned are the window of at most \<open>l\<close> rooms that starts at
  offset \<open>(p - 1) * l\<close> of the sorted, filtered list; and a page beyond \<open>pages\<close> is an
  empty list in a \<open>200\<close> response.
\<close>

theorem pagination_window:
  assumes "query_page q = p" and "query_limit opts q = l" and "1 \<le> p" and "1 \<le> l"
  shows "\<exists>b. room_list opts q (Inr rs) now (Inr m) = Response 200 (RoomList b)
           \<and> page (pagination b) = p \<and> limit (pagination b) = l
           \<and> total (pagination b) = int (length (filtered_rooms opts (filter_param q) rs))
           \<and> pages (pagination b) = \<lceil>real_of_int (total (pagination b)) / real_of_int l\<rceil>
           \<and> rooms b = map (format_room now)
                (take (nat l) (drop (nat ((p - 1) * l))
                   (applySorting (filtered_rooms opts (filter_param q) rs)
                      (query_sort opts q) (query_order opts q))))
           \<and> length (rooms b) \<le> nat l
           \<and> (pages (pagination b) < p \<longrightarrow> rooms b = [])"
proof -
  obtain c u where m: "m = (c, u)" by (cases m)
  have w: "slice xs ((p - 1) * l) (p * l) = take (nat l) (drop (nat ((p - 1) * l)) xs)"
    for xs :: "RoomSummary list"
  proof -
    have "0 \<le> (p - 1) * l" using assms by simp
    moreover have "(p - 1) * l \<le> p * l" using assms by (simp add: mult_right_mono)
    moreover have "p * l - (p - 1) * l = l" by (simp add: algebra_simps)
    ultimately show ?thesis using slice_window[of "(p - 1) * l" "p * l" xs] by simp
  qed
  show ?thesis
    unfolding m room_list_ok
    using beyond_last_page[OF assms(4), of "applySorting (filtered_rooms opts (filter_param q) rs)
                      (query_sort opts q) (query_order opts q)" p]
    by (simp add: assms(1,2) w ceil_div_ceiling [symmetric] length_applySorting list_page_def)
qed

lemma applyRoomFilters_filter:
  "applyRoomFilters rs (Some fo) = filter (not_excluded fo) (filter (included fo) rs)"
proof -
  have i: "filter (included fo) rs =
           (case includeTypes fo of
              Some ts \<Rightarrow> if length ts > 0 then filter (\<lambda>r. name r \<in> set ts) rs else rs
            | None \<Rightarrow> rs)"
    by (auto simp: included_def split: option.splits intro: filter_cong)
  have e: "filter (not_excluded fo) xs =
           (case excludeTypes fo of
              Some ts \<Rightarrow> if length ts > 0 then filter (\<lambda>r. \<not> name r \<in> set ts) xs else xs
            | None \<Rightarrow> xs)" for xs
    by (auto simp: not_excluded_def split: option.splits intro: filter_cong)
  show ?thesis
    by (simp only: applyRoomFilters_def Let_def option.case i e)
qed

lemma set_applyRoomFilters: "set (applyRoomFilters rs fo) \<subseteq> set rs"
proof (cases fo)
  case None
  then show ?thesis by (simp add: applyRoomFilters_def)
next
  case (Some a)
  then show ?thesis by (simp add: applyRoomFilters_filter)
qed

lemma sort_value_clients: "sort_value ''clients'' r = JNum (clients r)"
  by (simp add: sort_value_def room_obj_def)

lemma compare_rooms_clients:
  "compare_rooms ''clients'' ord a b =
     (if clients a = clients b then 0
      else if ord = ''desc'' then (if clients a < clients b then 1 else - 1)
      else (if clients a < clients b then - 1 else 1))"
  by (simp add: compare_rooms_def sort_value_clients js_less_def)

lemma scenario_filtered:
  "filtered_rooms default_options (filter_param scenario_query) scenario_rooms = scenario_rooms"
  by (simp add: filtered_rooms_def default_options_def scenario_query_def apply_query_filter_def
      applyRoomFilters_def)

lemma scenario_sorted:
  "applySorting scenario_rooms (Some ''clients'') ''desc''
   = [scenario_rooms ! 1, scenario_rooms ! 0, scenario_rooms ! 2]"
  by (simp add: applySorting_def compare_rooms_clients scenario_rooms_def)

lemma scenario_page:
  "list_page default_options scenario_query scenario_rooms
   = [scenario_rooms ! 1, scenario_rooms ! 0]"
proof -
  have "query_sort default_options scenario_query = Some ''clients''"
    by (simp add: query_sort_def scenario_query_def or_string_def)
  moreover have "query_order default_options scenario_query = ''desc''"
    by (simp add: query_order_def scenario_query_def or_string_def)
  moreover have "query_page scenario_query = 1"
    by (simp add: query_page_def scenario_query_def or_number_def)
  moreover have "query_limit default_options scenario_query = 2"
    by (simp add: query_limit_def scenario_query_def or_number_def)
  ultimately show ?thesis
    by (simp add: list_page_def scenario_filtered scenario_sorted slice_def slice_index_def)
qed

lemma show_int_8: "show_int 8 = ''8''"
  by (simp add: show_int_def show_nat.simps [of 8] digit_char_def)

lemma integer_to_string_8: "integer_to_string 8 = ''8''"
  by (simp add: integer_to_string_def show_int_8)

text \<open>
  C4, at a page beyond the last: Scenario A has three rooms, so with limit \<open>2\<close> there are two
  pages, and page \<open>3\<close> is empty.
\<close>

theorem pagination_window_witness:
  "query_page (scenario_query\<lparr>page_param := Some 3\<rparr>) = 3
   \<and> query_limit default_options (scenario_query\<lparr>page_param := Some 3\<rparr>) = 2
   \<and> (1::int) \<le> 3 \<and> (1::int) \<le> 2
   \<and> (\<exists>b. room_list default_options (scenario_query\<lparr>page_param := Some 3\<rparr>)
              (Inr scenario_rooms) 5000 (Inr (JNum 3, JNum 4))
            = Response 200 (RoomList b)
          \<and> total (pagination b) = 3 \<and> pages (pagination b) = 2 \<and> pages (pagination b) < 3
          \<and> rooms b = [])"
proof -
  have n: "length scenario_rooms = 3" by (simp add: scenario_rooms_def)
  have c: "\<lceil>(3::real) / 2\<rceil> = 2" by linarith
  have p: "query_page (scenario_query\<lparr>page_param := Some 3\<rparr>) = 3"
    by (simp add: query_page_def or_number_def)
  have l: "query_limit default_options (scenario_query\<lparr>page_param := Some 3\<rparr>) = 2"
    by (simp add: query_limit_def or_number_def scenario_query_def)
  have f: "filter_param (scenario_query\<lparr>page_param := Some 3\<rparr>) = filter_param scenario_query"
    by simp
  from pagination_window [OF p l, of scenario_rooms 5000 "(JNum 3, JNum 4)"]
  show ?thesis
    unfolding f scenario_filtered n using p l by (auto simp: c)
qed

lemma mixed_page:
  "list_page (default_options\<lparr>filter_options := Some example_filter\<rparr>) scenario_query mixed_rooms
   = [mixed_rooms ! 0, mixed_rooms ! 3]"
proof -
  let ?o = "default_options\<lparr>filter_options := Some example_filter\<rparr>"
  have "query_sort ?o scenario_query = Some ''clients''"
    by (simp add: query_sort_def scenario_query_def or_string_def)
  moreover have "query_order ?o scenario_query = ''desc''"
    by (simp add: query_order_def scenario_query_def or_string_def)
  moreover have "query_page scenario_query = 1"
    by (simp add: query_page_def scenario_query_def or_number_def)
  moreover have "query_limit ?o scenario_query = 2"
    by (simp add: query_limit_def scenario_query_def or_number_def)
  moreover have "filtered_rooms ?o (filter_param scenario_query) mixed_rooms
                 = [mixed_rooms ! 0, mixed_rooms ! 3]"
    by (simp add: filtered_rooms_def scenario_query_def apply_query_filter_def
        applyRoomFilters_def example_filter_def mixed_rooms_def)
  moreover have "applySorting [mixed_rooms ! 0, mixed_rooms ! 3] (Some ''clients'') ''desc''
                 = [mixed_rooms ! 0, mixed_rooms ! 3]"
    by (simp add: applySorting_def compare_rooms_clients mixed_rooms_def)
  ultimately show ?thesis
    by (simp add: list_page_def slice_def slice_index_def)
qed

text \<open>
  C5. \<open>applyRoomFilters\<close> applies the include test and then the exclude test: with a
  non-empty \<open>includeTypes\<close> every room it returns has its type name in the list, with a
  non-empty \<open>excludeTypes\<close> none has. \<^verbatim>\<open>GET /\<close> shows only rooms that passed it,
  whatever query filter, sort key and page the request asks for.
\<close>

theorem type_filter_always_applied:
  "applyRoomFilters rs (Some fo) = filter (not_excluded fo) (filter (included fo) rs)
   \<and> (\<forall>ts. includeTypes fo = Some ts \<and> ts \<noteq> [] \<longrightarrow>
         (\<forall>r \<in> set (applyRoomFilters rs (Some fo)). name r \<in> set ts))
   \<and> (\<forall>ts. excludeTypes fo = Some ts \<and> ts \<noteq> [] \<longrightarrow>
         (\<forall>r \<in> set (applyRoomFilters rs (Some fo)). name r \<notin> set ts))
   \<and> (\<exists>b. room_list (opts\<lparr>filter_options := Some fo\<rparr>) q (Inr rs) now (Inr m)
            = Response 200 (RoomList b)
          \<and> (\<forall>d \<in> set (rooms b). \<exists>r \<in> set (applyRoomFilters rs (Some fo)).
                d = format_room now r \<and> get_prop d ''name'' = JStr (name r)))"
proof (intro conjI allI impI)
  show "applyRoomFilters rs (Some fo) = filter (not_excluded fo) (filter (included fo) rs)"
    by (rule applyRoomFilters_filter)
next
  fix ts assume "includeTypes fo = Some ts \<and> ts \<noteq> []"
  then show "\<forall>r \<in> set (applyRoomFilters rs (Some fo)). name r \<in> set ts"
    by (simp add: applyRoomFilters_filter included_def)
next
  fix ts assume "excludeTypes fo = Some ts \<and> ts \<noteq> []"
  then show "\<forall>r \<in> set (applyRoomFilters rs (Some fo)). name r \<notin> set ts"
    by (simp add: applyRoomFilters_filter not_excluded_def)
next
  obtain b where b: "room_list (opts\<lparr>filter_options := Some fo\<rparr>) q (Inr rs) now (Inr m)
            = Response 200 (RoomList b)"
    using room_list_succeeds by blast
  have "\<exists>r \<in> set (applyRoomFilters rs (Some fo)).
                d = format_room now r \<and> get_prop d ''name'' = JStr (name r)"
    if "d \<in> set (rooms b)" for d
  proof -
    from shown_rooms_filtered[OF b that]
    obtain r where "r \<in> set (applyRoomFilters rs (Some fo))" "d = format_room now r"
      by auto
    then show ?thesis by (auto simp: format_room_name)
  qed
  with b show "\<exists>b. room_list (opts\<lparr>filter_options := Some fo\<rparr>) q (Inr rs) now (Inr m)
            = Response 200 (RoomList b)
          \<and> (\<forall>d \<in> set (rooms b). \<exists>r \<in> set (applyRoomFilters rs (Some fo)).
                d = format_room now r \<and> get_prop d ''name'' = JStr (name r))"
    by blast
qed

theorem type_filter_always_applied_witness:
  "includeTypes example_filter = Some [''GameRoom''] \<and> [''GameRoom''] \<noteq> []
   \<and> excludeTypes example_filter = Some [''LobbyRoom''] \<and> [''LobbyRoom''] \<noteq> []
   \<and> map roomId (applyRoomFilters mixed_rooms (Some example_filter)) = [''g1'', ''g2'']
   \<and> list_all (\<lambda>r. name r \<in> set [''GameRoom''])
         (applyRoomFilters mixed_rooms (Some example_filter))
   \<and> list_all (\<lambda>r. name r \<notin> set [''LobbyRoom''])
         (applyRoomFilters mixed_rooms (Some example_filter))
   \<and> (\<exists>b. room_list (default_options\<lparr>filter_options := Some example_filter\<rparr>) scenario_query
              (Inr mixed_rooms) 5000 (Inr (JNum 3, JNum 4))
            = Response 200 (RoomList b)
          \<and> map (\<lambda>d. get_prop d ''name'') (rooms b) = [JStr ''GameRoom'', JStr ''GameRoom''])"
proof -
  have e: "map roomId (filter (not_excluded example_filter)
                         (filter (included example_filter) mixed_rooms))
           = [''g1'', ''g2'']"
    by (simp add: included_def not_excluded_def example_filter_def mixed_rooms_def)
  have i: "includeTypes example_filter = Some [''GameRoom'']"
    "excludeTypes example_filter = Some [''LobbyRoom'']"
    by (simp_all add: example_filter_def)
  note t = type_filter_always_applied
             [of mixed_rooms example_filter default_options scenario_query 5000 "(JNum 3, JNum 4)"]
  from t obtain b where b: "room_list (default_options\<lparr>filter_options := Some example_filter\<rparr>)
              scenario_query (Inr mixed_rooms) 5000 (Inr (JNum 3, JNum 4))
            = Response 200 (RoomList b)"
    by blast
  have n: "map (\<lambda>d. get_prop d ''name'') (rooms b) = [JStr ''GameRoom'', JStr ''GameRoom'']"
    unfolding room_list_rooms(1)[OF b]
    by (simp add: mixed_page format_room_name) (simp add: mixed_rooms_def)
  have x: "\<exists>b. room_list (default_options\<lparr>filter_options := Some example_filter\<rparr>) scenario_query
              (Inr mixed_rooms) 5000 (Inr (JNum 3, JNum 4))
            = Response 200 (RoomList b)
          \<and> map (\<lambda>d. get_prop d ''name'') (rooms b) = [JStr ''GameRoom'', JStr ''GameRoom'']"
    by (rule exI [of _ b]) (simp only: b n simp_thms)
  from t e i x show ?thesis
    by (auto simp: list_all_iff)
qed

text \<open>
  C8. The \<open>connections\<close> of a \<^verbatim>\<open>GET /\<close> response is the sum of the \<open>clients\<close> of the
  rooms of the returned page.
\<close>

theorem connections_sum_over_page:
  "\<exists>b. room_list opts q (Inr rs) now (Inr m) = Response 200 (RoomList b)
      \<and> connections b = sum_list (map clients_shown (rooms b))"
proof -
  obtain b where b: "room_list opts q (Inr rs) now (Inr m) = Response 200 (RoomList b)"
    using room_list_succeeds by blast
  have "clients_shown \<circ> format_room now = clients"
    by (simp add: fun_eq_iff clients_shown_def format_room_clients)
  then have "connections b = sum_list (map clients_shown (rooms b))"
    unfolding room_list_rooms[OF b] by simp
  with b show ?thesis by blast
qed

text \<open>
  In Scenario A the page holds the rooms with 5 and 2 clients: \<open>connections\<close> is \<open>7\<close>,
  while the three rooms left by the filters have \<open>8\<close> clients together.
\<close>

theorem connections_sum_over_page_witness:
  "\<exists>b. room_list default_options scenario_query (Inr scenario_rooms) 5000 (Inr (JNum 3, JNum 4))
        = Response 200 (RoomList b)
      \<and> map clients_shown (rooms b) = [5, 2]
      \<and> connections b = 7
      \<and> sum_list (map clients scenario_rooms) = 8"
proof -
  from connections_sum_over_page
         [of default_options scenario_query scenario_rooms 5000 "(JNum 3, JNum 4)"]
  obtain b where b: "room_list default_options scenario_query (Inr scenario_rooms) 5000
                       (Inr (JNum 3, JNum 4)) = Response 200 (RoomList b)"
    and c: "connections b = sum_list (map clients_shown (rooms b))"
    by blast
  have m: "map clients_shown (rooms b) = [5, 2]"
    unfolding room_list_rooms(1)[OF b]
    by (simp add: scenario_page clients_shown_def format_room_clients)
       (simp add: scenario_rooms_def)
  have s: "sum_list (map clients scenario_rooms) = 8"
    by (simp add: scenario_rooms_def)
  from c m have k: "connections b = 7" by simp
  show ?thesis
    by (rule exI [of _ b]) (simp only: b m k s simp_thms)
qed

text \<open>
  C9, as stated: every room returned by \<^verbatim>\<open>GET /\<close> has \<open>maxClients\<close> and \<open>clients\<close> as
  non-negative integers. It fails on Scenario A: the handler writes \<^verbatim>\<open>`${room.maxClients}`\<close>,
  a string, over the field, so both rooms of the page show \<open>maxClients\<close> as the text \<open>8\<close>.
\<close>

theorem maxClients_is_text_counterexample:
  "(case room_list default_options scenario_query (Inr scenario_rooms) 5000 (Inr (JNum 3, JNum 4)) of
      Response s (RoomList b) \<Rightarrow> map (\<lambda>d. get_prop d ''maxClients'') (rooms b)
    | _ \<Rightarrow> []) = [JStr ''8'', JStr ''8'']
   \<and> \<not> summary_shape (room_list default_options scenario_query (Inr scenario_rooms) 5000
                          (Inr (JNum 3, JNum 4)))"
  by (simp add: room_list_ok summary_shape_def scenario_page nonneg_integer_def
      format_room_maxClients)
     (simp add: scenario_rooms_def integer_to_string_8)

text \<open>
  C9, as the code has it. Every room returned by \<^verbatim>\<open>GET /\<close> is the formatting of a
  room of the registry's listing. Its \<open>maxClients\<close> is a string: the decimal text of that
  room's \<open>maxClients\<close> when this is an integer below \<open>2\<^sup>5\<^sup>3\<close> in magnitude, and the text
  \<^verbatim>\<open>Infinity\<close> when the room has no limit. Its \<open>clients\<close> is that room's \<open>clients\<close>
  unchanged.
\<close>

theorem maxClients_is_text:
  "\<exists>b. room_list opts q (Inr rs) now (Inr m) = Response 200 (RoomList b)
      \<and> (\<forall>d \<in> set (rooms b). \<exists>r \<in> set rs.
            (\<exists>s. get_prop d ''maxClients'' = JStr s)
            \<and> (\<forall>n. maxClients r = Integer n \<and> \<bar>n\<bar> < 2 ^ 53 \<longrightarrow>
                   get_prop d ''maxClients'' = JStr (show_int n))
            \<and> (maxClients r = Infinity \<longrightarrow> get_prop d ''maxClients'' = JStr ''Infinity'')
            \<and> get_prop d ''clients'' = JNum (clients r))"
proof -
  obtain b where b: "room_list opts q (Inr rs) now (Inr m) = Response 200 (RoomList b)"
    using room_list_succeeds by blast
  have "\<exists>r \<in> set rs.
            (\<exists>s. get_prop d ''maxClients'' = JStr s)
            \<and> (\<forall>n. maxClients r = Integer n \<and> \<bar>n\<bar> < 2 ^ 53 \<longrightarrow>
                   get_prop d ''maxClients'' = JStr (show_int n))
            \<and> (maxClients r = Infinity \<longrightarrow> get_prop d ''maxClients'' = JStr ''Infinity'')
            \<and> get_prop d ''clients'' = JNum (clients r)"
    if "d \<in> set (rooms b)" for d
  proof -
    from shown_rooms_filtered[OF b that] obtain r
      where r: "r \<in> set (applyRoomFilters rs (filter_options opts))" "d = format_room now r"
      by blast
    from r(1) have "r \<in> set rs"
      using set_applyRoomFilters by blast
    moreover have "get_prop d ''maxClients'' = JStr (number_to_string (maxClients r))"
      unfolding r(2) by (rule format_room_maxClients)
    moreover have "get_prop d ''clients'' = JNum (clients r)"
      unfolding r(2) by (rule format_room_clients)
    ultimately show ?thesis
      using safe_integer_text by (intro bexI [of _ r]) auto
  qed
  with b show ?thesis by blast
qed

lemma open_page: "list_page default_options plain_query open_rooms = open_rooms"
proof -
  have "query_sort default_options plain_query = None"
    by (simp add: query_sort_def plain_query_def or_string_def roomListOptions_def
        default_options_def)
  moreover have "query_page plain_query = 1"
    by (simp add: query_page_def plain_query_def or_number_def)
  moreover have "query_limit default_options plain_query = 100"
    by (simp add: query_limit_def plain_query_def or_number_def roomListOptions_def
        default_options_def)
  moreover have "filtered_rooms default_options (filter_param plain_query) open_rooms
                 = open_rooms"
    by (simp add: filtered_rooms_def default_options_def plain_query_def
        apply_query_filter_def applyRoomFilters_def)
  moreover have "length open_rooms = 2"
    by (simp add: open_rooms_def)
  ultimately show ?thesis
    by (simp add: list_page_def applySorting_def slice_def slice_index_def)
qed

text \<open>
  A room without a limit is shown with \<open>maxClients\<close> \<^verbatim>\<open>"Infinity"\<close>, one with the limit
  \<open>8\<close> with \<^verbatim>\<open>"8"\<close>.
\<close>

theorem maxClients_is_text_witness:
  "\<exists>b. room_list default_options plain_query (Inr open_rooms) 5000 (Inr (JNum 3, JNum 4))
        = Response 200 (RoomList b)
      \<and> map (\<lambda>d. get_prop d ''maxClients'') (rooms b) = [JStr ''Infinity'', JStr ''8'']
      \<and> map (\<lambda>d. get_prop d ''clients'') (rooms b) = [JNum 40, JNum 3]"
proof -
  from maxClients_is_text [of default_options plain_query open_rooms 5000 "(JNum 3, JNum 4)"]
  obtain b where b: "room_list default_options plain_query (Inr open_rooms) 5000
                       (Inr (JNum 3, JNum 4)) = Response 200 (RoomList b)"
    by blast
  have m: "map (\<lambda>d. get_prop d ''maxClients'') (rooms b) = [JStr ''Infinity'', JStr ''8'']"
    unfolding room_list_rooms(1)[OF b]
    by (simp add: open_page) (simp add: open_rooms_def format_room_maxClients integer_to_string_8)
  have c: "map (\<lambda>d. get_prop d ''clients'') (rooms b) = [JNum 40, JNum 3]"
    unfolding room_list_rooms(1)[OF b]
    by (simp add: open_page) (simp add: open_rooms_def format_room_clients)
  show ?thesis
    by (rule exI [of _ b]) (simp only: b m c simp_thms)
qed

section \<open>Sorting\<close>






























end
